theory Spec2Isabelle
  imports Complex_Main
begin

section \<open>Strings\<close>

text \<open>
  A Python \<open>str\<close> is modelled as a \<^typ>\<open>string\<close> whose characters are the code points
  below 256, so \<open>\<times>\<close> is \<open>CHR 0xD7\<close> and \<open>\<div>\<close> is \<open>CHR 0xF7\<close>, and \<^const>\<open>length\<close>
  is Python's \<open>len\<close>.
\<close>

definition isspace :: "char \<Rightarrow> bool" where
  \<comment> \<open>\<open>str.isspace\<close> on one code point below 256\<close>
  "isspace c = (of_char c \<in> {9, 10, 11, 12, 13, 28, 29, 30, 31, 32, 133, 160 :: nat})"

definition strip :: "string \<Rightarrow> string" where
  \<comment> \<open>\<open>str.strip()\<close>\<close>
  "strip s = rev (dropWhile isspace (rev (dropWhile isspace s)))"

definition replace :: "char \<Rightarrow> string \<Rightarrow> string \<Rightarrow> string" where
  \<comment> \<open>\<open>s.replace(c, r)\<close> for a pattern \<open>c\<close> of one character\<close>
  "replace c r s = concat (map (\<lambda>x. if x = c then r else [x]) s)"

definition isdigit :: "char \<Rightarrow> bool" where
  \<comment> \<open>the class \<open>\d\<close> of \<open>re\<close> on code points below 256\<close>
  "isdigit c = (c \<in> set ''0123456789'')"

section \<open>The percentage preprocessor\<close>

text \<open>
  \<open>re.sub(r'(\d+\.?\d*)%', replace_percent, expr)\<close>. The pattern matches at a position
  exactly when a maximal non-empty run of digits starts there and is followed by \<open>%\<close>, or
  by a point, a maximal (possibly empty) run of digits and \<open>%\<close>: every other way to split
  the text between the three quantifiers leaves a digit or a point where \<open>%\<close> is needed.
  \<open>match_percent\<close> returns group 1 and the text after the match.
\<close>

definition match_percent :: "string \<Rightarrow> (string \<times> string) option" where
  "match_percent s =
     (let d1 = takeWhile isdigit s; r1 = dropWhile isdigit s in
      if d1 = [] then None
      else (case r1 of
              [] \<Rightarrow> None
            | c # r2 \<Rightarrow>
                if c = CHR ''%'' then Some (d1, r2)
                else if c = CHR ''.'' then
                  (let d2 = takeWhile isdigit r2; r3 = dropWhile isdigit r2 in
                   case r3 of
                     [] \<Rightarrow> None
                   | c' # r4 \<Rightarrow> if c' = CHR ''%'' then Some (d1 @ ''.'' @ d2, r4) else None)
                else None))"

definition isnumch :: "char \<Rightarrow> bool" where
  \<comment> \<open>the class \<open>[\d.]\<close>\<close>
  "isnumch c = (isdigit c \<or> c = CHR ''.'')"

definition isopch :: "char \<Rightarrow> bool" where
  \<comment> \<open>the class \<open>[+\-*/]\<close>\<close>
  "isopch c = (c \<in> set ''+-*/'')"

text \<open>
  \<open>re.search(r'([\d.]+(?:[+\-*/][\d.]+)*)$', before)\<close> finds the longest text that ends
  where \<open>$\<close> matches and consists of runs of \<open>[\d.]\<close> separated by single operators.
  \<open>take_base\<close> reads it from the end of the text, on the reversed string; \<open>$\<close> matches
  at the end and in front of a newline that ends the text.
\<close>

fun take_base :: "string \<Rightarrow> string" where
  "take_base [] = []"
| "take_base [c] = (if isnumch c then [c] else [])"
| "take_base (c # d # ds) =
     (if isnumch c \<or> (isopch c \<and> isnumch d) then c # take_base (d # ds) else [])"

definition prev_match :: "string \<Rightarrow> string option" where
  "prev_match bef =
     (let r = rev bef;
          r' = (case r of [] \<Rightarrow> [] | c # cs \<Rightarrow> if c = CHR 0x0A then cs else r);
          t = (case r' of [] \<Rightarrow> [] | c # cs \<Rightarrow> if isnumch c then take_base r' else [])
      in if t = [] then None else Some (rev t))"

definition ends_with_op :: "string \<Rightarrow> bool" where
  \<comment> \<open>\<open>any(before.endswith(op) for op in '+-*/(')\<close>\<close>
  "ends_with_op bef = (bef \<noteq> [] \<and> last bef \<in> set ''+-*/('')"

definition replace_percent :: "string \<Rightarrow> string \<Rightarrow> string" where
  \<comment> \<open>\<open>bef\<close> is the source's \<open>before = expr[:match.start()]\<close> and \<open>num\<close> is \<open>match.group(1)\<close>\<close>
  "replace_percent bef num =
     (if ends_with_op bef then ''('' @ num @ ''/100)''
      else (case prev_match bef of
              Some base \<Rightarrow> ''+('' @ base @ ''*'' @ num @ ''/100)''
            | None \<Rightarrow> ''('' @ num @ ''/100)''))"

lemma match_percent_shorter:
  "match_percent s = Some (num, rest) \<Longrightarrow> length rest < length s"
proof -
  have a: "length (dropWhile isdigit t) \<le> length t" for t
    by (rule length_dropWhile_le)
  assume "match_percent s = Some (num, rest)"
  then show ?thesis
    using a [of s] a [of "tl (dropWhile isdigit s)"]
    by (auto simp: match_percent_def Let_def split: if_splits list.splits)
qed

text \<open>
  The scan of \<open>re.sub\<close>: \<open>bef\<close> is the text already passed, from the expression as it
  was when the substitution began, and the second argument is the text still to scan.
\<close>

function sub_percent :: "string \<Rightarrow> string \<Rightarrow> string" where
  "sub_percent bef [] = []"
| "sub_percent bef (c # cs) =
     (case match_percent (c # cs) of
        Some (num, rest) \<Rightarrow>
          replace_percent bef num @ sub_percent (bef @ num @ ''%'') rest
      | None \<Rightarrow> c # sub_percent (bef @ [c]) cs)"
  by pat_completeness auto
termination
  by (relation "measure (\<lambda>(bef, s). length s)")
     (auto dest: match_percent_shorter)

definition aliases :: "string \<Rightarrow> string" where
  \<comment> \<open>\<open>expr.strip().replace('^', '**').replace('\<times>', '*').replace('\<div>', '/')\<close>\<close>
  "aliases raw =
     replace (CHR 0xF7) ''/'' (replace (CHR 0xD7) ''*'' (replace (CHR ''^'') ''**'' (strip raw)))"

definition preprocess :: "string \<Rightarrow> string" where
  \<comment> \<open>the expression handed to \<open>ast.parse\<close>\<close>
  "preprocess raw = (let expr = aliases raw in sub_percent [] expr)"

text \<open>
  What stands in front of a position of the text: a digit, a point that directly follows
  a digit, or anything else (also the start of the text).
\<close>

datatype preceding = After_Digit | After_Digit_Point | After_Other

definition next_context :: "preceding \<Rightarrow> char \<Rightarrow> preceding" where
  "next_context k c =
     (if isdigit c then After_Digit
      else if c = CHR ''.'' \<and> k = After_Digit then After_Digit_Point
      else After_Other)"

text \<open>
  \<open>percents_follow_numbers After_Other s\<close>: every \<open>%\<close> of \<open>s\<close> directly follows a digit, or a
  point that directly follows a digit. The first argument says what stands in front of the
  text.
\<close>

fun percents_follow_numbers :: "preceding \<Rightarrow> string \<Rightarrow> bool" where
  "percents_follow_numbers k [] = True"
| "percents_follow_numbers k (c # cs) =
     ((c = CHR ''%'' \<longrightarrow> k \<noteq> After_Other) \<and> percents_follow_numbers (next_context k c) cs)"

section \<open>Exceptions\<close>

text \<open>
  The exceptions that \<open>safe_math_eval\<close> catches, by class. A \<open>ValueError\<close> raised by the
  evaluator itself carries the message the source builds; the message of an exception raised
  by the Python runtime is not modelled. \<open>DivisionByZero\<close>, \<open>InvalidOperation\<close> and
  \<open>Overflow\<close> are the classes of the \<open>decimal\<close> module; \<open>DivisionByZero\<close> is a
  \<open>ZeroDivisionError\<close> too.
\<close>

datatype error =
    SyntaxError
  | ValueError string
  | TypeError
  | ZeroDivisionError
  | OverflowError
  | DivisionByZero
  | InvalidOperation
  | Overflow

section \<open>Decimal arithmetic\<close>

text \<open>
  \<open>decimal.Decimal\<close> under the context the module sets up: \<open>getcontext().prec = 28\<close>, and
  the defaults \<open>ROUND_HALF_EVEN\<close>, \<open>Emax = 999999\<close>, \<open>Emin = -999999\<close>, \<open>clamp = 0\<close>,
  with the traps \<open>InvalidOperation\<close>, \<open>DivisionByZero\<close> and \<open>Overflow\<close>. A finite
  number \<open>Dec s c e\<close> has the sign \<open>s\<close> (\<open>True\<close> is negative), the coefficient \<open>c \<ge> 0\<close>
  and the exponent \<open>e\<close>; \<open>DNaN\<close> is the quiet NaN. The operations follow \<open>_pydecimal.py\<close>.
\<close>

datatype decimal = Dec bool int int | DInf bool | DNaN

definition prec :: nat where
  "prec = 28"

definition Emax :: int where
  "Emax = 999999"

definition Emin :: int where
  "Emin = - 999999"

definition Etiny :: int where
  "Etiny = Emin - int prec + 1"

definition Etop :: int where
  "Etop = Emax - int prec + 1"

function ndigits :: "int \<Rightarrow> nat" where
  \<comment> \<open>\<open>len(str(n))\<close> for \<open>n \<ge> 0\<close>\<close>
  "ndigits n = (if n < 10 then 1 else Suc (ndigits (n div 10)))"
  by pat_completeness auto
termination
  by (relation "measure nat") auto

declare ndigits.simps [simp del]

definition adjusted :: "int \<Rightarrow> int \<Rightarrow> int" where
  \<comment> \<open>\<open>Decimal.adjusted()\<close>: the exponent of the leading digit\<close>
  "adjusted c e = e + int (ndigits c) - 1"

definition round_half_even :: "int \<Rightarrow> nat \<Rightarrow> int" where
  \<comment> \<open>the coefficient \<open>c\<close> without its last \<open>k\<close> digits, rounded as \<open>_round_half_even\<close> decides\<close>
  "round_half_even c k =
     (let q = c div 10 ^ k; r = c mod 10 ^ k
      in if 2 * r > 10 ^ k \<or> (2 * r = 10 ^ k \<and> odd q) then q + 1 else q)"

definition dec_fix :: "decimal \<Rightarrow> error + decimal" where
  \<comment> \<open>\<open>Decimal._fix(context)\<close>\<close>
  "dec_fix d =
     (case d of
        Dec s c e \<Rightarrow>
          if c = 0 then Inr (Dec s 0 (min (max e Etiny) Emax))
          else
            let exp_min = int (ndigits c) + e - int prec in
            if exp_min > Etop then Inl Overflow
            else
              let exp_min = (if exp_min < Etiny then Etiny else exp_min) in
              if e < exp_min then
                let coeff = round_half_even c (nat (exp_min - e));
                    longer = (ndigits coeff > prec);
                    coeff = (if longer then coeff div 10 else coeff);
                    exp_min = (if longer then exp_min + 1 else exp_min)
                in if exp_min > Etop then Inl Overflow else Inr (Dec s coeff exp_min)
              else Inr d
      | _ \<Rightarrow> Inr d)"

definition dec_rescale :: "decimal \<Rightarrow> int \<Rightarrow> decimal" where
  \<comment> \<open>\<open>Decimal._rescale(exp, ROUND_HALF_EVEN)\<close>\<close>
  "dec_rescale d ex =
     (case d of
        Dec s c e \<Rightarrow>
          if c = 0 then Dec s 0 ex
          else if e \<ge> ex then Dec s (c * 10 ^ nat (e - ex)) ex
          else Dec s (round_half_even c (nat (ex - e))) ex
      | _ \<Rightarrow> d)"

definition dec_normalize :: "int \<times> int \<Rightarrow> int \<times> int \<Rightarrow> (int \<times> int) \<times> (int \<times> int)" where
  \<comment> \<open>\<open>_normalize(op1, op2, prec)\<close> on coefficient and exponent\<close>
  "dec_normalize op1 op2 =
     (let swap = (snd op1 < snd op2);
          tmp = (if swap then op2 else op1);
          other = (if swap then op1 else op2);
          ex = snd tmp + min (- 1) (int (ndigits (fst tmp)) - int prec - 2);
          other = (if int (ndigits (fst other)) + snd other - 1 < ex then (1, ex) else other);
          tmp = (fst tmp * 10 ^ nat (snd tmp - snd other), snd other)
      in if swap then (other, tmp) else (tmp, other))"

definition dec_add :: "decimal \<Rightarrow> decimal \<Rightarrow> error + decimal" where
  \<comment> \<open>\<open>Decimal.__add__\<close>\<close>
  "dec_add x y =
     (case (x, y) of
        (DNaN, _) \<Rightarrow> Inr DNaN
      | (_, DNaN) \<Rightarrow> Inr DNaN
      | (DInf s, DInf t) \<Rightarrow> if s \<noteq> t then Inl InvalidOperation else Inr x
      | (DInf s, _) \<Rightarrow> Inr x
      | (_, DInf t) \<Rightarrow> Inr y
      | (Dec s1 c1 e1, Dec s2 c2 e2) \<Rightarrow>
          let ex = min e1 e2 in
          if c1 = 0 \<and> c2 = 0 then dec_fix (Dec (s1 \<and> s2) 0 ex)
          else if c1 = 0 then dec_fix (dec_rescale y (max ex (e2 - int prec - 1)))
          else if c2 = 0 then dec_fix (dec_rescale x (max ex (e1 - int prec - 1)))
          else
            let (op1, op2) = dec_normalize (c1, e1) (c2, e2) in
            if s1 \<noteq> s2 then
              if fst op1 = fst op2 then dec_fix (Dec False 0 ex)
              else if fst op1 < fst op2 then dec_fix (Dec s2 (fst op2 - fst op1) (snd op1))
              else dec_fix (Dec s1 (fst op1 - fst op2) (snd op1))
            else dec_fix (Dec s1 (fst op1 + fst op2) (snd op1)))"

definition copy_negate :: "decimal \<Rightarrow> decimal" where
  "copy_negate d = (case d of Dec s c e \<Rightarrow> Dec (\<not> s) c e | DInf s \<Rightarrow> DInf (\<not> s) | DNaN \<Rightarrow> DNaN)"

definition dec_sub :: "decimal \<Rightarrow> decimal \<Rightarrow> error + decimal" where
  \<comment> \<open>\<open>Decimal.__sub__\<close>\<close>
  "dec_sub x y = (if x = DNaN \<or> y = DNaN then Inr DNaN else dec_add x (copy_negate y))"

definition dec_mul :: "decimal \<Rightarrow> decimal \<Rightarrow> error + decimal" where
  \<comment> \<open>\<open>Decimal.__mul__\<close>\<close>
  "dec_mul x y =
     (case (x, y) of
        (DNaN, _) \<Rightarrow> Inr DNaN
      | (_, DNaN) \<Rightarrow> Inr DNaN
      | (DInf s, DInf t) \<Rightarrow> Inr (DInf (s \<noteq> t))
      | (DInf s, Dec t c e) \<Rightarrow> if c = 0 then Inl InvalidOperation else Inr (DInf (s \<noteq> t))
      | (Dec s c e, DInf t) \<Rightarrow> if c = 0 then Inl InvalidOperation else Inr (DInf (s \<noteq> t))
      | (Dec s1 c1 e1, Dec s2 c2 e2) \<Rightarrow> dec_fix (Dec (s1 \<noteq> s2) (c1 * c2) (e1 + e2)))"

function strip_zeros :: "int \<Rightarrow> int \<Rightarrow> int \<Rightarrow> int \<times> int" where
  \<comment> \<open>\<open>while exp < ideal_exp and coeff % 10 == 0: coeff //= 10; exp += 1\<close>\<close>
  "strip_zeros coeff ex ideal_exp =
     (if ex < ideal_exp \<and> coeff mod 10 = 0
      then strip_zeros (coeff div 10) (ex + 1) ideal_exp
      else (coeff, ex))"
  by pat_completeness auto
termination
  by (relation "measure (\<lambda>(coeff, ex, ideal_exp). nat (ideal_exp - ex))") auto

declare strip_zeros.simps [simp del]

definition dec_truediv :: "decimal \<Rightarrow> decimal \<Rightarrow> error + decimal" where
  \<comment> \<open>\<open>Decimal.__truediv__\<close>\<close>
  "dec_truediv x y =
     (case (x, y) of
        (DNaN, _) \<Rightarrow> Inr DNaN
      | (_, DNaN) \<Rightarrow> Inr DNaN
      | (DInf s, DInf t) \<Rightarrow> Inl InvalidOperation
      | (DInf s, Dec t c e) \<Rightarrow> Inr (DInf (s \<noteq> t))
      | (Dec s c e, DInf t) \<Rightarrow> Inr (Dec (s \<noteq> t) 0 Etiny)
      | (Dec s1 c1 e1, Dec s2 c2 e2) \<Rightarrow>
          if c2 = 0 then (if c1 = 0 then Inl InvalidOperation else Inl DivisionByZero)
          else if c1 = 0 then dec_fix (Dec (s1 \<noteq> s2) 0 (e1 - e2))
          else
            let shift = int (ndigits c2) - int (ndigits c1) + int prec + 1;
                ex = e1 - e2 - shift;
                num = (if shift \<ge> 0 then c1 * 10 ^ nat shift else c1);
                den = (if shift \<ge> 0 then c2 else c2 * 10 ^ nat (- shift));
                coeff = num div den;
                remainder = num mod den
            in if remainder \<noteq> 0
               then dec_fix (Dec (s1 \<noteq> s2) (if coeff mod 5 = 0 then coeff + 1 else coeff) ex)
               else (let (coeff, ex) = strip_zeros coeff ex (e1 - e2)
                     in dec_fix (Dec (s1 \<noteq> s2) coeff ex)))"

definition dec_divide :: "bool \<times> int \<times> int \<Rightarrow> bool \<times> int \<times> int \<Rightarrow> error + decimal \<times> decimal" where
  \<comment> \<open>\<open>Decimal._divide\<close> for a finite dividend and a finite divisor that is not zero\<close>
  "dec_divide a b =
     (case (a, b) of ((s1, c1, e1), (s2, c2, e2)) \<Rightarrow>
        let ideal_exp = min e1 e2;
            expdiff = adjusted c1 e1 - adjusted c2 e2
        in if c1 = 0 \<or> expdiff \<le> - 2
           then Inr (Dec (s1 \<noteq> s2) 0 0, dec_rescale (Dec s1 c1 e1) ideal_exp)
           else
             let i1 = (if e1 \<ge> e2 then c1 * 10 ^ nat (e1 - e2) else c1);
                 i2 = (if e1 \<ge> e2 then c2 else c2 * 10 ^ nat (e2 - e1));
                 q = i1 div i2;
                 r = i1 mod i2
             in if expdiff \<le> int prec \<and> q < 10 ^ prec
                then Inr (Dec (s1 \<noteq> s2) q 0, Dec s1 r ideal_exp)
                else Inl InvalidOperation)"

definition dec_floordiv :: "decimal \<Rightarrow> decimal \<Rightarrow> error + decimal" where
  \<comment> \<open>\<open>Decimal.__floordiv__\<close>\<close>
  "dec_floordiv x y =
     (case (x, y) of
        (DNaN, _) \<Rightarrow> Inr DNaN
      | (_, DNaN) \<Rightarrow> Inr DNaN
      | (DInf s, DInf t) \<Rightarrow> Inl InvalidOperation
      | (DInf s, Dec t c e) \<Rightarrow> Inr (DInf (s \<noteq> t))
      | (Dec s c e, DInf t) \<Rightarrow> Inr (Dec (s \<noteq> t) 0 0)
      | (Dec s1 c1 e1, Dec s2 c2 e2) \<Rightarrow>
          if c2 = 0 then (if c1 \<noteq> 0 then Inl DivisionByZero else Inl InvalidOperation)
          else (case dec_divide (s1, c1, e1) (s2, c2, e2) of
                  Inl err \<Rightarrow> Inl err
                | Inr (q, r) \<Rightarrow> Inr q))"

definition dec_mod :: "decimal \<Rightarrow> decimal \<Rightarrow> error + decimal" where
  \<comment> \<open>\<open>Decimal.__mod__\<close>\<close>
  "dec_mod x y =
     (case (x, y) of
        (DNaN, _) \<Rightarrow> Inr DNaN
      | (_, DNaN) \<Rightarrow> Inr DNaN
      | (DInf s, _) \<Rightarrow> Inl InvalidOperation
      | (Dec s c e, DInf t) \<Rightarrow> dec_fix (dec_rescale x e)
      | (Dec s1 c1 e1, Dec s2 c2 e2) \<Rightarrow>
          if c2 = 0 then Inl InvalidOperation
          else (case dec_divide (s1, c1, e1) (s2, c2, e2) of
                  Inl err \<Rightarrow> Inl err
                | Inr (q, r) \<Rightarrow> dec_fix r))"

definition dec_neg :: "decimal \<Rightarrow> error + decimal" where
  \<comment> \<open>\<open>Decimal.__neg__\<close>: the negation of a zero is the positive zero\<close>
  "dec_neg d =
     (case d of
        Dec s c e \<Rightarrow> dec_fix (if c = 0 then Dec False 0 e else Dec (\<not> s) c e)
      | DInf s \<Rightarrow> Inr (DInf (\<not> s))
      | DNaN \<Rightarrow> Inr DNaN)"

definition dec_pos :: "decimal \<Rightarrow> error + decimal" where
  \<comment> \<open>\<open>Decimal.__pos__\<close>\<close>
  "dec_pos d =
     (case d of
        Dec s c e \<Rightarrow> dec_fix (if c = 0 then Dec False 0 e else d)
      | _ \<Rightarrow> Inr d)"

definition dec_abs :: "decimal \<Rightarrow> error + decimal" where
  \<comment> \<open>\<open>Decimal.__abs__\<close>\<close>
  "dec_abs d =
     (case d of
        Dec s c e \<Rightarrow> if s then dec_neg d else dec_pos d
      | DInf s \<Rightarrow> Inr (DInf False)
      | DNaN \<Rightarrow> Inr DNaN)"

definition dec_signed :: "bool \<Rightarrow> int \<Rightarrow> int" where
  "dec_signed s c = (if s then - c else c)"

definition dec_eq :: "decimal \<Rightarrow> decimal \<Rightarrow> bool" where
  \<comment> \<open>\<open>Decimal.__eq__\<close>: equal values; a NaN equals nothing\<close>
  "dec_eq x y =
     (case (x, y) of
        (Dec s1 c1 e1, Dec s2 c2 e2) \<Rightarrow>
          dec_signed s1 c1 * 10 ^ nat (e1 - min e1 e2) = dec_signed s2 c2 * 10 ^ nat (e2 - min e1 e2)
      | (DInf s, DInf t) \<Rightarrow> s = t
      | _ \<Rightarrow> False)"

definition to_integral_value :: "decimal \<Rightarrow> decimal" where
  \<comment> \<open>\<open>Decimal.to_integral_value()\<close>\<close>
  "to_integral_value d =
     (case d of Dec s c e \<Rightarrow> if e \<ge> 0 then d else dec_rescale d 0 | _ \<Rightarrow> d)"

definition quantize :: "decimal \<Rightarrow> int \<Rightarrow> error + decimal" where
  \<comment> \<open>\<open>Decimal.quantize(exp)\<close> for a finite \<open>exp\<close> with the exponent \<open>q\<close>\<close>
  "quantize d q =
     (case d of
        DNaN \<Rightarrow> Inr DNaN
      | DInf s \<Rightarrow> Inl InvalidOperation
      | Dec s c e \<Rightarrow>
          if \<not> (Etiny \<le> q \<and> q \<le> Emax) then Inl InvalidOperation
          else if c = 0 then dec_fix (Dec s 0 q)
          else if adjusted c e > Emax then Inl InvalidOperation
          else if adjusted c e - q + 1 > int prec then Inl InvalidOperation
          else (case dec_rescale d q of
                  Dec s' c' e' \<Rightarrow>
                    if adjusted c' e' > Emax then Inl InvalidOperation
                    else if ndigits c' > prec then Inl InvalidOperation
                    else dec_fix (Dec s' c' e')
                | other \<Rightarrow> Inr other))"

definition dec_int :: "decimal \<Rightarrow> error + int" where
  \<comment> \<open>\<open>Decimal.__int__\<close>: truncation\<close>
  "dec_int d =
     (case d of
        DNaN \<Rightarrow> Inl (ValueError ''cannot convert NaN to integer'')
      | DInf s \<Rightarrow> Inl OverflowError
      | Dec s c e \<Rightarrow>
          Inr (if e \<ge> 0 then dec_signed s (c * 10 ^ nat e) else dec_signed s (c div 10 ^ nat (- e))))"

definition dec_round :: "decimal \<Rightarrow> error + int" where
  \<comment> \<open>\<open>Decimal.__round__()\<close> with one argument\<close>
  "dec_round d =
     (case d of
        DNaN \<Rightarrow> Inl (ValueError ''cannot round a NaN'')
      | DInf s \<Rightarrow> Inl OverflowError
      | Dec s c e \<Rightarrow> dec_int (dec_rescale d 0))"

definition dec_of_int :: "int \<Rightarrow> decimal" where
  \<comment> \<open>\<open>Decimal(str(n))\<close> and \<open>Decimal(n)\<close> for an \<open>int\<close>\<close>
  "dec_of_int n = Dec (n < 0) \<bar>n\<bar> 0"

section \<open>Binary floating point\<close>

text \<open>
  A Python \<open>float\<close> is an IEEE 754 binary64 number. A finite one is modelled by its exact
  value, a rational; \<open>Fin 0\<close> is \<open>0.0\<close> and \<open>NegZero\<close> is \<open>-0.0\<close>. Conversions round to the
  nearest double, ties to even, as \<open>float(str)\<close>, \<open>math.sqrt\<close> and \<open>round\<close> do.
\<close>

datatype pyfloat = Fin rat | NegZero | PInf | NInf | FNaN

definition pow2 :: "int \<Rightarrow> rat" where
  "pow2 k = (if k \<ge> 0 then 2 ^ nat k else 1 / 2 ^ nat (- k))"

definition pow10 :: "int \<Rightarrow> rat" where
  "pow10 k = (if k \<ge> 0 then 10 ^ nat k else 1 / 10 ^ nat (- k))"

function bitlen :: "int \<Rightarrow> nat" where
  \<comment> \<open>\<open>int.bit_length()\<close> for \<open>n \<ge> 0\<close>\<close>
  "bitlen n = (if n \<le> 0 then 0 else Suc (bitlen (n div 2)))"
  by pat_completeness auto
termination
  by (relation "measure nat") auto

declare bitlen.simps [simp del]

definition flog2 :: "rat \<Rightarrow> int" where
  \<comment> \<open>for \<open>a > 0\<close>, the \<open>e\<close> with \<open>2 ^ e \<le> a < 2 ^ (e + 1)\<close>\<close>
  "flog2 a =
     (let (n, d) = quotient_of a;
          b = int (bitlen n) - int (bitlen d)
      in if pow2 b \<le> a then b else b - 1)"

definition flog10 :: "rat \<Rightarrow> int" where
  \<comment> \<open>for \<open>a > 0\<close>, the \<open>e\<close> with \<open>10 ^ e \<le> a < 10 ^ (e + 1)\<close>\<close>
  "flog10 a =
     (let (n, d) = quotient_of a;
          b = int (ndigits n) - int (ndigits d)
      in if pow10 (b + 1) \<le> a then b + 1 else if pow10 b \<le> a then b else b - 1)"

definition rnd_even :: "rat \<Rightarrow> int" where
  \<comment> \<open>the nearest integer, a tie going to the even one\<close>
  "rnd_even x =
     (let f = \<lfloor>x\<rfloor>; r = x - of_int f
      in if r > 1 / 2 \<or> (r = 1 / 2 \<and> odd f) then f + 1 else f)"

definition to_double :: "rat \<Rightarrow> pyfloat" where
  \<comment> \<open>the double nearest to a rational: 53 significant bits \<open>m\<close>, exponents \<open>t\<close> from
      \<open>-1074\<close>, infinity when the rounded value reaches \<open>2 ^ 1024\<close>\<close>
  "to_double q =
     (if q = 0 then Fin 0
      else
        let a = \<bar>q\<bar>;
            e = flog2 a;
            t = max (e - 52) (- 1074);
            m = rnd_even (a / pow2 t)
        in if e \<ge> 1024 \<or> (e = 1023 \<and> m \<ge> 2 ^ 53) then (if q < 0 then NInf else PInf)
           else if m = 0 then (if q < 0 then NegZero else Fin 0)
           else Fin ((if q < 0 then - 1 else 1) * of_int m * pow2 t))"

definition dec_value :: "bool \<Rightarrow> int \<Rightarrow> int \<Rightarrow> rat" where
  "dec_value s c e = (if s then - 1 else 1) * of_int c * pow10 e"

definition dec_float :: "decimal \<Rightarrow> pyfloat" where
  \<comment> \<open>\<open>Decimal.__float__\<close>, that is \<open>float(str(d))\<close>\<close>
  "dec_float d =
     (case d of
        Dec s c e \<Rightarrow> if c = 0 then (if s then NegZero else Fin 0) else to_double (dec_value s c e)
      | DInf s \<Rightarrow> if s then NInf else PInf
      | DNaN \<Rightarrow> FNaN)"

text \<open>
  \<open>repr\<close> of a float gives the shortest digit string that reads back as the same double,
  and of those the one nearest to it. \<open>shortest_digits x p\<close> tries \<open>p\<close>, \<open>p + 1\<close>, ... up to 17
  significant digits, at each length the two decimals around \<open>x\<close>; it returns the digits as
  a number \<open>n\<close> and the exponent \<open>k\<close> with value \<open>n * 10 ^ k\<close>.
\<close>

function shortest_digits :: "rat \<Rightarrow> nat \<Rightarrow> int \<times> int" where
  "shortest_digits x p =
     (let k = flog10 x + 1 - int p;
          y = x / pow10 k;
          near = rnd_even y;
          far = (if of_int near \<le> y then near + 1 else near - 1)
      in if p \<ge> 17 \<or> to_double (of_int near * pow10 k) = Fin x then (near, k)
         else if to_double (of_int far * pow10 k) = Fin x then (far, k)
         else shortest_digits x (Suc p))"
  by pat_completeness auto
termination
  by (relation "measure (\<lambda>(x, p). 17 - p)") auto

declare shortest_digits.simps [simp del]

function drop_zeros :: "int \<Rightarrow> int \<Rightarrow> int \<times> int" where
  \<comment> \<open>trailing zeros of the digits move into the exponent\<close>
  "drop_zeros n k = (if n > 0 \<and> n mod 10 = 0 then drop_zeros (n div 10) (k + 1) else (n, k))"
  by pat_completeness auto
termination
  by (relation "measure (\<lambda>(n, k). nat n)") auto

declare drop_zeros.simps [simp del]

definition float_repr :: "rat \<Rightarrow> int \<times> int" where
  \<comment> \<open>the digits and the exponent of \<open>repr(x)\<close> for a finite \<open>x > 0\<close>, without trailing zeros\<close>
  "float_repr x = (let (n, k) = shortest_digits x 1 in drop_zeros n k)"

definition dec_of_float :: "pyfloat \<Rightarrow> decimal" where
  \<comment> \<open>\<open>Decimal(str(x))\<close> for a float \<open>x\<close>. \<open>str\<close> writes the digits with a point when the
      point falls within \<open>-4 < decpt \<le> 16\<close>, with \<open>.0\<close> after an integral value, and with an
      exponent otherwise; \<open>Decimal\<close> keeps every digit written.\<close>
  "dec_of_float x =
     (case x of
        FNaN \<Rightarrow> DNaN
      | PInf \<Rightarrow> DInf False
      | NInf \<Rightarrow> DInf True
      | NegZero \<Rightarrow> Dec True 0 (- 1)
      | Fin q \<Rightarrow>
          if q = 0 then Dec False 0 (- 1)
          else
            let (n, k) = float_repr \<bar>q\<bar>;
                decpt = k + int (ndigits n)
            in if - 4 < decpt \<and> decpt \<le> 16 \<and> k \<ge> 0
               then Dec (q < 0) (n * 10 ^ nat (k + 1)) (- 1)
               else Dec (q < 0) n k)"

function isqrt :: "int \<Rightarrow> int" where
  \<comment> \<open>\<open>math.isqrt\<close>\<close>
  "isqrt n =
     (if n < 4 then (if n \<le> 0 then 0 else 1)
      else let r = 2 * isqrt (n div 4) in if (r + 1) * (r + 1) \<le> n then r + 1 else r)"
  by pat_completeness auto
termination
  by (relation "measure nat") auto

declare isqrt.simps [simp del]

definition sqrt_double :: "rat \<Rightarrow> pyfloat" where
  \<comment> \<open>the double nearest to the square root of \<open>a > 0\<close>\<close>
  "sqrt_double a =
     (let h = flog2 a div 2;
          t = max (h - 52) (- 1074);
          r = a / pow2 (2 * t);
          m = isqrt \<lfloor>r\<rfloor>;
          mid = (of_int m + 1 / 2) * (of_int m + 1 / 2);
          m = (if r > mid \<or> (r = mid \<and> odd m) then m + 1 else m)
      in Fin (of_int m * pow2 t))"

definition math_sqrt :: "pyfloat \<Rightarrow> error + pyfloat" where
  \<comment> \<open>\<open>math.sqrt\<close> on a float\<close>
  "math_sqrt x =
     (case x of
        Fin q \<Rightarrow> if q < 0 then Inl (ValueError ''math domain error'')
                 else if q = 0 then Inr (Fin 0) else Inr (sqrt_double q)
      | NegZero \<Rightarrow> Inr NegZero
      | PInf \<Rightarrow> Inr PInf
      | NInf \<Rightarrow> Inl (ValueError ''math domain error'')
      | FNaN \<Rightarrow> Inr FNaN)"

definition float_round :: "pyfloat \<Rightarrow> nat \<Rightarrow> pyfloat" where
  \<comment> \<open>\<open>round(x, ndigits)\<close> for a float and \<open>0 \<le> ndigits \<le> 22\<close>: the decimal with \<open>ndigits\<close>
      places nearest to \<open>x\<close>, then the double nearest to that decimal\<close>
  "float_round x nd =
     (case x of
        Fin q \<Rightarrow>
          (case to_double (of_int (rnd_even (q * 10 ^ nd)) / 10 ^ nd) of
             Fin r \<Rightarrow> if r = 0 \<and> q < 0 then NegZero else Fin r
           | other \<Rightarrow> other)
      | _ \<Rightarrow> x)"

definition float_to_int :: "pyfloat \<Rightarrow> error + int" where
  \<comment> \<open>\<open>round(x)\<close> for a float\<close>
  "float_to_int x =
     (case x of
        Fin q \<Rightarrow> Inr (rnd_even q)
      | NegZero \<Rightarrow> Inr 0
      | FNaN \<Rightarrow> Inl (ValueError ''cannot convert float NaN to integer'')
      | _ \<Rightarrow> Inl OverflowError)"

definition float_neg :: "pyfloat \<Rightarrow> pyfloat" where
  "float_neg x =
     (case x of
        Fin q \<Rightarrow> if q = 0 then NegZero else Fin (- q)
      | NegZero \<Rightarrow> Fin 0
      | PInf \<Rightarrow> NInf
      | NInf \<Rightarrow> PInf
      | FNaN \<Rightarrow> FNaN)"

definition float_abs :: "pyfloat \<Rightarrow> pyfloat" where
  "float_abs x =
     (case x of
        Fin q \<Rightarrow> Fin \<bar>q\<bar>
      | NegZero \<Rightarrow> Fin 0
      | NInf \<Rightarrow> PInf
      | _ \<Rightarrow> x)"

definition math_pi :: pyfloat where
  \<comment> \<open>\<open>math.pi\<close>, the double \<open>0x400921FB54442D18\<close>\<close>
  "math_pi = Fin (884279719003555 / 2 ^ 48)"

definition math_e :: pyfloat where
  \<comment> \<open>\<open>math.e\<close>, the double \<open>0x4005BF0A8B145769\<close>\<close>
  "math_e = Fin (6121026514868073 / 2 ^ 51)"

section \<open>Expression trees and values\<close>

text \<open>
  The nodes that \<open>ast.parse(expr, mode='eval')\<close> builds, as far as \<open>eval_node\<close> tells them
  apart. \<open>Other name\<close> stands for a node of any class that \<open>eval_node\<close> does not handle
  (\<open>Attribute\<close>, \<open>Compare\<close>, \<open>BoolOp\<close>, \<open>IfExp\<close>, \<open>Tuple\<close>, \<open>Starred\<close>, ...), with the name
  of the class. A \<open>Call\<close> carries the callee, the positional arguments and the names of the
  keyword arguments.
\<close>

datatype const =
    CInt int
  | CFloat pyfloat
  | CComplex pyfloat
  | CBool bool
  | CNone
  | CEllipsis

datatype binop = Add | Sub | Mult | Div | FloorDiv | Mod | Pow | OtherBinOp string

datatype unop = USub | UAdd | OtherUnaryOp string

datatype expr =
    Constant const
  | Name string
  | BinOp expr binop expr
  | UnaryOp unop expr
  | Call expr "expr list" "string list"
  | Other string

text \<open>
  The objects that \<open>eval_node\<close> returns: a \<open>Decimal\<close>, a \<open>float\<close>, an \<open>int\<close>, a \<open>complex\<close>
  (real and imaginary part), one of the functions of \<open>ALLOWED_MATH_NAMES\<close> by its key,
  \<open>None\<close> or \<open>Ellipsis\<close>.
\<close>

datatype "value" =
    VDec decimal
  | VFloat pyfloat
  | VInt int
  | VComplex pyfloat pyfloat
  | VFunc string
  | VNone
  | VEllipsis

text \<open>
  What the Python runtime does and this theory leaves open is a parameter of the evaluator:
  the functions of the C library behind \<open>math.sin\<close>, \<open>math.cos\<close>, \<open>math.tan\<close>,
  \<open>math.log10\<close> and \<open>math.log\<close>, the operators on operands that are \<open>float\<close>, \<open>int\<close>
  or \<open>complex\<close> with a \<open>float\<close> or \<open>complex\<close> among them, every power, and a call of
  \<open>round\<close> or \<open>ln\<close> with two arguments, of \<open>log\<close> or \<open>ln\<close> on an \<open>int\<close>, or of \<open>abs\<close> on a
  \<open>complex\<close>. The recursion limit of the interpreter is not modelled.
\<close>

record platform =
  libm_sin :: "pyfloat \<Rightarrow> error + pyfloat"
  libm_cos :: "pyfloat \<Rightarrow> error + pyfloat"
  libm_tan :: "pyfloat \<Rightarrow> error + pyfloat"
  libm_log10 :: "pyfloat \<Rightarrow> error + pyfloat"
  libm_log :: "pyfloat \<Rightarrow> error + pyfloat"
  runtime_binop :: "binop \<Rightarrow> value \<Rightarrow> value \<Rightarrow> error + value"
  runtime_call :: "string \<Rightarrow> value list \<Rightarrow> error + value"

definition ALLOWED_MATH_NAMES :: "string list" where
  "ALLOWED_MATH_NAMES =
     [''pi'', ''e'', ''sqrt'', ''sin'', ''cos'', ''tan'', ''log'', ''ln'', ''abs'', ''round'']"

definition lookup_name :: "string \<Rightarrow> value" where
  \<comment> \<open>\<open>ALLOWED_MATH_NAMES[id]\<close> for a key of the table\<close>
  "lookup_name n =
     (if n = ''pi'' then VFloat math_pi
      else if n = ''e'' then VFloat math_e
      else VFunc n)"

definition allowed_binop :: "binop \<Rightarrow> bool" where
  \<comment> \<open>\<open>op_type in ALLOWED_OPERATORS\<close>\<close>
  "allowed_binop op = (case op of OtherBinOp n \<Rightarrow> False | _ \<Rightarrow> True)"

definition binop_name :: "binop \<Rightarrow> string" where
  "binop_name op =
     (case op of
        Add \<Rightarrow> ''Add'' | Sub \<Rightarrow> ''Sub'' | Mult \<Rightarrow> ''Mult'' | Div \<Rightarrow> ''Div''
      | FloorDiv \<Rightarrow> ''FloorDiv'' | Mod \<Rightarrow> ''Mod'' | Pow \<Rightarrow> ''Pow'' | OtherBinOp n \<Rightarrow> n)"

definition eval_const :: "const \<Rightarrow> error + value" where
  \<comment> \<open>\<open>Decimal(str(val)) if isinstance(val, (int, float)) else val\<close>; a \<open>bool\<close> is an
      \<open>int\<close>, and \<open>Decimal('True')\<close> raises\<close>
  "eval_const c =
     (case c of
        CInt n \<Rightarrow> Inr (VDec (dec_of_int n))
      | CFloat x \<Rightarrow> Inr (VDec (dec_of_float x))
      | CBool b \<Rightarrow> Inl InvalidOperation
      | CComplex x \<Rightarrow> Inr (VComplex (Fin 0) x)
      | CNone \<Rightarrow> Inr VNone
      | CEllipsis \<Rightarrow> Inr VEllipsis)"

definition dec_binop :: "binop \<Rightarrow> decimal \<Rightarrow> decimal \<Rightarrow> (error + decimal) option" where
  \<comment> \<open>the operators of \<open>Decimal\<close> that this theory defines; the power is left to the platform\<close>
  "dec_binop op x y =
     (case op of
        Add \<Rightarrow> Some (dec_add x y)
      | Sub \<Rightarrow> Some (dec_sub x y)
      | Mult \<Rightarrow> Some (dec_mul x y)
      | Div \<Rightarrow> Some (dec_truediv x y)
      | FloorDiv \<Rightarrow> Some (dec_floordiv x y)
      | Mod \<Rightarrow> Some (dec_mod x y)
      | _ \<Rightarrow> None)"

definition int_binop :: "binop \<Rightarrow> int \<Rightarrow> int \<Rightarrow> (error + value) option" where
  \<comment> \<open>the operators of \<open>int\<close> with an \<open>int\<close> result\<close>
  "int_binop op a b =
     (case op of
        Add \<Rightarrow> Some (Inr (VInt (a + b)))
      | Sub \<Rightarrow> Some (Inr (VInt (a - b)))
      | Mult \<Rightarrow> Some (Inr (VInt (a * b)))
      | FloorDiv \<Rightarrow> Some (if b = 0 then Inl ZeroDivisionError else Inr (VInt (a div b)))
      | Mod \<Rightarrow> Some (if b = 0 then Inl ZeroDivisionError else Inr (VInt (a mod b)))
      | _ \<Rightarrow> None)"

definition map_dec :: "(error + decimal) \<Rightarrow> error + value" where
  "map_dec r = (case r of Inl e \<Rightarrow> Inl e | Inr d \<Rightarrow> Inr (VDec d))"

definition is_number :: "value \<Rightarrow> bool" where
  "is_number v = (case v of VFloat x \<Rightarrow> True | VInt n \<Rightarrow> True | VComplex x y \<Rightarrow> True | _ \<Rightarrow> False)"

definition apply_binop :: "platform \<Rightarrow> binop \<Rightarrow> value \<Rightarrow> value \<Rightarrow> error + value" where
  \<comment> \<open>\<open>ALLOWED_OPERATORS[op_type](left, right)\<close>. A \<open>Decimal\<close> combines with a \<open>Decimal\<close> or
      an \<open>int\<close>; with a \<open>float\<close> or a \<open>complex\<close> it raises \<open>TypeError\<close>, as does a function,
      \<open>None\<close> or \<open>Ellipsis\<close> with anything.\<close>
  "apply_binop P op l r =
     (case (l, r) of
        (VDec x, VDec y) \<Rightarrow>
          (case dec_binop op x y of Some res \<Rightarrow> map_dec res | None \<Rightarrow> runtime_binop P op l r)
      | (VDec x, VInt b) \<Rightarrow>
          (case dec_binop op x (dec_of_int b) of
             Some res \<Rightarrow> map_dec res | None \<Rightarrow> runtime_binop P op l r)
      | (VInt a, VDec y) \<Rightarrow>
          (case dec_binop op (dec_of_int a) y of
             Some res \<Rightarrow> map_dec res | None \<Rightarrow> runtime_binop P op l r)
      | (VInt a, VInt b) \<Rightarrow>
          (case int_binop op a b of Some res \<Rightarrow> res | None \<Rightarrow> runtime_binop P op l r)
      | _ \<Rightarrow> if is_number l \<and> is_number r then runtime_binop P op l r else Inl TypeError)"

definition apply_unop :: "unop \<Rightarrow> value \<Rightarrow> error + value" where
  \<comment> \<open>\<open>operator.neg\<close> and \<open>operator.pos\<close>\<close>
  "apply_unop op v =
     (case v of
        VDec d \<Rightarrow> map_dec (if op = USub then dec_neg d else dec_pos d)
      | VFloat x \<Rightarrow> Inr (VFloat (if op = USub then float_neg x else x))
      | VInt n \<Rightarrow> Inr (VInt (if op = USub then - n else n))
      | VComplex x y \<Rightarrow> Inr (if op = USub then VComplex (float_neg x) (float_neg y) else v)
      | _ \<Rightarrow> Inl TypeError)"

definition to_float :: "value \<Rightarrow> error + pyfloat" where
  \<comment> \<open>the conversion of an argument of a \<open>math\<close> function to a C double\<close>
  "to_float v =
     (case v of
        VDec d \<Rightarrow> Inr (dec_float d)
      | VFloat x \<Rightarrow> Inr x
      | VInt n \<Rightarrow> (case to_double (of_int n) of
                     Fin q \<Rightarrow> Inr (Fin q) | other \<Rightarrow> Inl OverflowError)
      | _ \<Rightarrow> Inl TypeError)"

definition deg_to_rad :: rat where
  \<comment> \<open>the double \<open>pi / 180.0\<close>, \<open>0x3F91DF46A2529D39\<close>\<close>
  "deg_to_rad = 5030569068109113 / 2 ^ 58"

definition radians :: "pyfloat \<Rightarrow> pyfloat" where
  \<comment> \<open>\<open>math.radians(x)\<close>: the product \<open>x * (pi / 180.0)\<close> of doubles\<close>
  "radians x =
     (case x of
        Fin q \<Rightarrow>
          (case to_double (q * deg_to_rad) of
             Fin r \<Rightarrow> if r = 0 \<and> q < 0 then NegZero else Fin r
           | other \<Rightarrow> other)
      | other \<Rightarrow> other)"

definition map_float :: "(error + pyfloat) \<Rightarrow> error + value" where
  "map_float r = (case r of Inl e \<Rightarrow> Inl e | Inr x \<Rightarrow> Inr (VFloat x))"

definition map_int :: "(error + int) \<Rightarrow> error + value" where
  "map_int r = (case r of Inl e \<Rightarrow> Inl e | Inr n \<Rightarrow> Inr (VInt n))"

definition bind_float :: "(error + pyfloat) \<Rightarrow> (pyfloat \<Rightarrow> error + pyfloat) \<Rightarrow> error + value" where
  "bind_float r f = (case r of Inl e \<Rightarrow> Inl e | Inr x \<Rightarrow> map_float (f x))"

definition call_function :: "platform \<Rightarrow> string \<Rightarrow> value list \<Rightarrow> error + value" where
  \<comment> \<open>\<open>func(*args)\<close> for \<open>func = ALLOWED_MATH_NAMES[name]\<close>. The constants \<open>pi\<close> and \<open>e\<close>
      are floats and cannot be called. The trigonometric entries are
      \<open>lambda x: math.sin(math.radians(x))\<close> and its like.\<close>
  "call_function P name args =
     (if name = ''pi'' \<or> name = ''e'' then Inl TypeError
      else case args of
        [v] \<Rightarrow>
          if name = ''sqrt'' then bind_float (to_float v) math_sqrt
          else if name = ''sin'' then bind_float (to_float v) (\<lambda>x. libm_sin P (radians x))
          else if name = ''cos'' then bind_float (to_float v) (\<lambda>x. libm_cos P (radians x))
          else if name = ''tan'' then bind_float (to_float v) (\<lambda>x. libm_tan P (radians x))
          else if name = ''log'' \<or> name = ''ln'' then
            (case v of
               VInt n \<Rightarrow> runtime_call P name args
             | _ \<Rightarrow> bind_float (to_float v) (if name = ''log'' then libm_log10 P else libm_log P))
          else if name = ''abs'' then
            (case v of
               VDec d \<Rightarrow> map_dec (dec_abs d)
             | VFloat x \<Rightarrow> Inr (VFloat (float_abs x))
             | VInt n \<Rightarrow> Inr (VInt \<bar>n\<bar>)
             | VComplex x y \<Rightarrow> runtime_call P name args
             | _ \<Rightarrow> Inl TypeError)
          else
            (case v of
               VDec d \<Rightarrow> map_int (dec_round d)
             | VFloat x \<Rightarrow> map_int (float_to_int x)
             | VInt n \<Rightarrow> Inr (VInt n)
             | _ \<Rightarrow> Inl TypeError)
      | [v, w] \<Rightarrow>
          if name = ''round'' \<or> name = ''ln'' then runtime_call P name args else Inl TypeError
      | _ \<Rightarrow> Inl TypeError)"

section \<open>The evaluator\<close>

fun eval_node :: "platform \<Rightarrow> expr \<Rightarrow> error + value"
  and eval_args :: "platform \<Rightarrow> expr list \<Rightarrow> error + value list" where
  "eval_node P (Constant c) = eval_const c"
| "eval_node P (Name n) =
     (if n \<notin> set ALLOWED_MATH_NAMES then Inl (ValueError (''Function not allowed: '' @ n))
      else Inr (lookup_name n))"
| "eval_node P (BinOp l op r) =
     (case eval_node P l of
        Inl e \<Rightarrow> Inl e
      | Inr left \<Rightarrow>
          (case eval_node P r of
             Inl e \<Rightarrow> Inl e
           | Inr right \<Rightarrow>
               if \<not> allowed_binop op
               then Inl (ValueError (''Operator not allowed: '' @ binop_name op))
               else apply_binop P op left right))"
| "eval_node P (UnaryOp op x) =
     (case eval_node P x of
        Inl e \<Rightarrow> Inl e
      | Inr operand \<Rightarrow>
          (case op of
             OtherUnaryOp n \<Rightarrow> Inl (ValueError (''Unary operator not allowed: '' @ n))
           | _ \<Rightarrow> apply_unop op operand))"
| "eval_node P (Call f args keywords) =
     (case f of
        Name n \<Rightarrow>
          if n \<notin> set ALLOWED_MATH_NAMES then Inl (ValueError (''Function not allowed: '' @ n))
          else (case eval_args P args of
                  Inl e \<Rightarrow> Inl e
                | Inr vs \<Rightarrow>
                    if keywords \<noteq> [] then Inl (ValueError ''Keyword arguments not permitted'')
                    else call_function P n vs)
      | _ \<Rightarrow> Inl (ValueError ''Function not allowed: unknown''))"
| "eval_node P (Other n) = Inl (ValueError (''Unsupported expression element: '' @ n))"
| "eval_args P [] = Inr []"
| "eval_args P (a # as) =
     (case eval_node P a of
        Inl e \<Rightarrow> Inl e
      | Inr v \<Rightarrow> (case eval_args P as of Inl e \<Rightarrow> Inl e | Inr vs \<Rightarrow> Inr (v # vs)))"

definition format_result :: "value \<Rightarrow> error + value" where
  \<comment> \<open>the lines after \<open># Format result\<close>\<close>
  "format_result result =
     (case result of
        VDec d \<Rightarrow>
          if dec_eq d (to_integral_value d) then map_int (dec_int d)
          else (case quantize d (- 10) of
                  Inl e \<Rightarrow> Inl e
                | Inr q \<Rightarrow> Inr (VFloat (dec_float q)))
      | VFloat x \<Rightarrow> Inr (VFloat (float_round x 10))
      | _ \<Rightarrow> Inr result)"

definition evaluate :: "platform \<Rightarrow> expr \<Rightarrow> error + value" where
  \<comment> \<open>\<open>safe_math_eval\<close> from the parsed tree on: \<open>eval_node(parsed.body)\<close>, the formatting,
      and the handlers that turn every exception into the returned error\<close>
  "evaluate P body = (case eval_node P body of Inl e \<Rightarrow> Inl e | Inr result \<Rightarrow> format_result result)"

section \<open>The parser\<close>

text \<open>
  \<open>ast.parse(expr, mode='eval')\<close> on the calculator's fragment of Python: decimal numbers
  with an optional point, names, the operators \<open>+ - * / // % **\<close>, parentheses and calls.
  The outcome is the tree, a \<open>SyntaxError\<close>, or \<open>Not_Modelled\<close> for a text that uses
  anything else of Python (a character outside the fragment, a number directly followed by
  a letter as in \<open>1e5\<close>, \<open>0x1F\<close> or \<open>1j\<close>, an attribute, or one of the keywords that
  may stand in an expression): about such a text this theory says nothing.
\<close>

datatype 'a parsed = Parsed 'a | Syntax_Error | Not_Modelled

datatype token = TNum const | TName string | TKeyword string | TOp string

definition isalpha :: "char \<Rightarrow> bool" where
  "isalpha c = (c \<in> set ''abcdefghijklmnopqrstuvwxyzABCDEFGHIJKLMNOPQRSTUVWXYZ'')"

definition isalnum :: "char \<Rightarrow> bool" where
  "isalnum c = (isalpha c \<or> isdigit c)"

definition isblank :: "char \<Rightarrow> bool" where
  \<comment> \<open>space, tab and form feed\<close>
  "isblank c = (c = CHR '' '' \<or> c = CHR 0x09 \<or> c = CHR 0x0C)"

definition isnewline :: "char \<Rightarrow> bool" where
  "isnewline c = (c = CHR 0x0A \<or> c = CHR 0x0D)"

definition statement_keywords :: "string list" where
  \<comment> \<open>the keywords of Python that no expression contains\<close>
  "statement_keywords =
     [''as'', ''assert'', ''break'', ''class'', ''continue'', ''def'', ''del'', ''elif'',
      ''except'', ''finally'', ''global'', ''import'', ''nonlocal'', ''pass'', ''raise'',
      ''return'', ''try'', ''while'', ''with'']"

definition expression_keywords :: "string list" where
  \<comment> \<open>the keywords that an expression may contain; they are outside the fragment\<close>
  "expression_keywords =
     [''and'', ''or'', ''not'', ''if'', ''else'', ''in'', ''is'', ''for'', ''from'',
      ''async'', ''await'', ''yield'', ''lambda'']"

definition digit_val :: "char \<Rightarrow> int" where
  "digit_val c = int (of_char c) - 48"

definition digits_val :: "string \<Rightarrow> int" where
  \<comment> \<open>the number that a string of digits writes\<close>
  "digits_val ds = foldl (\<lambda>n c. 10 * n + digit_val c) 0 ds"

definition number_token :: "string \<Rightarrow> string option \<Rightarrow> token parsed" where
  \<comment> \<open>the constant of a literal with the digits \<open>d1\<close> in front of the point and, when
      there is a point, \<open>d2\<close> after it. A literal without a point is an \<open>int\<close>, and zeros in
      front of it are a syntax error; one with a point is the nearest \<open>float\<close>.\<close>
  "number_token d1 point =
     (case point of
        None \<Rightarrow>
          if length d1 > 1 \<and> hd d1 = CHR ''0'' \<and> digits_val d1 \<noteq> 0 then Syntax_Error
          else Parsed (TNum (CInt (digits_val d1)))
      | Some d2 \<Rightarrow>
          Parsed (TNum (CFloat (to_double (of_int (digits_val (d1 @ d2)) / 10 ^ length d2)))))"

definition name_token :: "string \<Rightarrow> token parsed" where
  "name_token n =
     (if n = ''None'' then Parsed (TNum CNone)
      else if n = ''True'' then Parsed (TNum (CBool True))
      else if n = ''False'' then Parsed (TNum (CBool False))
      else if n \<in> set statement_keywords then Parsed (TKeyword n)
      else if n \<in> set expression_keywords then Not_Modelled
      else Parsed (TName n))"

definition cons_token :: "token parsed \<Rightarrow> token list parsed \<Rightarrow> token list parsed" where
  "cons_token t ts =
     (case t of
        Parsed x \<Rightarrow> (case ts of Parsed xs \<Rightarrow> Parsed (x # xs) | other \<Rightarrow> other)
      | Syntax_Error \<Rightarrow> (case ts of Not_Modelled \<Rightarrow> Not_Modelled | other \<Rightarrow> Syntax_Error)
      | Not_Modelled \<Rightarrow> Not_Modelled)"

definition starts_with_letter :: "string \<Rightarrow> bool" where
  "starts_with_letter s = (case s of [] \<Rightarrow> False | c # cs \<Rightarrow> isalpha c)"

text \<open>
  The tokenizer. \<open>depth\<close> counts the open parentheses: inside them a newline is blank
  space, outside it ends the expression and only blank space may follow. The first argument
  bounds the number of steps; each step takes at least one character.
\<close>

definition tokenize_step ::
  "(nat \<Rightarrow> string \<Rightarrow> token list parsed) \<Rightarrow> nat \<Rightarrow> string \<Rightarrow> token list parsed" where
  \<comment> \<open>one step of the tokenizer; \<open>rest\<close> tokenizes what follows the first token\<close>
  "tokenize_step rest depth s =
     (case s of
        [] \<Rightarrow> Parsed []
      | c # cs \<Rightarrow>
          if isblank c then rest depth cs
          else if isnewline c then
            (if depth > 0 then rest depth cs
             else (case rest depth cs of
                     Parsed [] \<Rightarrow> Parsed []
                   | Parsed (t # ts) \<Rightarrow> Syntax_Error
                   | other \<Rightarrow> other))
          else if isdigit c then
            (let d1 = takeWhile isdigit (c # cs); r1 = dropWhile isdigit cs in
             case r1 of
               [] \<Rightarrow> cons_token (number_token d1 None) (Parsed [])
             | x # r2 \<Rightarrow>
                 if x = CHR ''.'' then
                   (let d2 = takeWhile isdigit r2; r3 = dropWhile isdigit r2 in
                    if starts_with_letter r3 then Not_Modelled
                    else cons_token (number_token d1 (Some d2)) (rest depth r3))
                 else if isalpha x then Not_Modelled
                 else cons_token (number_token d1 None) (rest depth r1))
          else if c = CHR ''.'' then
            (let d2 = takeWhile isdigit cs; r3 = dropWhile isdigit cs in
             if d2 = [] \<or> starts_with_letter r3 then Not_Modelled
             else cons_token (number_token [] (Some d2)) (rest depth r3))
          else if isalpha c then
            cons_token (name_token (takeWhile isalnum (c # cs))) (rest depth (dropWhile isalnum cs))
          else if c = CHR ''*'' then
            (case cs of
               [] \<Rightarrow> Parsed [TOp ''*'']
             | x # r \<Rightarrow>
                 if x = CHR ''*'' then cons_token (Parsed (TOp ''**'')) (rest depth r)
                 else cons_token (Parsed (TOp ''*'')) (rest depth cs))
          else if c = CHR ''/'' then
            (case cs of
               [] \<Rightarrow> Parsed [TOp ''/'']
             | x # r \<Rightarrow>
                 if x = CHR ''/'' then cons_token (Parsed (TOp ''//'')) (rest depth r)
                 else cons_token (Parsed (TOp ''/'')) (rest depth cs))
          else if c = CHR ''('' then cons_token (Parsed (TOp ''('')) (rest (Suc depth) cs)
          else if c = CHR '')'' then cons_token (Parsed (TOp '')'')) (rest (depth - 1) cs)
          else if c \<in> set ''+-%'' then cons_token (Parsed (TOp [c])) (rest depth cs)
          else Not_Modelled)"

primrec tokenize :: "nat \<Rightarrow> nat \<Rightarrow> string \<Rightarrow> token list parsed" where
  "tokenize 0 = (\<lambda>depth s. Not_Modelled)"
| "tokenize (Suc n) = tokenize_step (tokenize n)"

text \<open>
  The grammar, highest precedence last:
  \<open>sum: term (('+' | '-') term)*\<close>, \<open>term: factor (('*' | '/' | '//' | '%') factor)*\<close>,
  \<open>factor: ('+' | '-') factor | power\<close>, \<open>power: primary ['**' factor]\<close>,
  \<open>primary: atom ('(' [argument] ')')*\<close>, \<open>atom: NUMBER | NAME | '(' [sum] ')'\<close>.
  An argument is an expression, \<open>*expression\<close> or \<open>**expression\<close>. Each rule
  returns the tree and the tokens left. The first argument of \<open>parse_tokens\<close> bounds the
  depth of the calls;
  \<open>parse\<close> gives enough for every text, and running out counts as \<open>Not_Modelled\<close>.
\<close>

definition sum_op :: "token \<Rightarrow> binop option" where
  "sum_op t = (if t = TOp ''+'' then Some Add else if t = TOp ''-'' then Some Sub else None)"

definition term_op :: "token \<Rightarrow> binop option" where
  "term_op t =
     (if t = TOp ''*'' then Some Mult else if t = TOp ''/'' then Some Div
      else if t = TOp ''//'' then Some FloorDiv else if t = TOp ''%'' then Some Mod else None)"

definition unary_op :: "token \<Rightarrow> unop option" where
  "unary_op t = (if t = TOp ''-'' then Some USub else if t = TOp ''+'' then Some UAdd else None)"

datatype grammar_rule =
    Sum | Sum_Rest expr | Term | Term_Rest expr | Factor | Power | Trailers expr | Atom

type_synonym parser = "grammar_rule \<Rightarrow> token list \<Rightarrow> (expr \<times> token list) parsed"

definition closing ::
  "parser \<Rightarrow> expr option \<Rightarrow> (expr \<Rightarrow> expr) \<Rightarrow> token list \<Rightarrow> (expr \<times> token list) parsed" where
  \<comment> \<open>an expression \<open>a\<close> and the closing parenthesis, which give \<open>build a\<close>: the value of a
      group, or for \<open>Some f\<close> the call of \<open>f\<close>, which further trailers may follow\<close>
  "closing rec callee build ts =
     (case rec Sum ts of
        Parsed (a, rest) \<Rightarrow>
          (case rest of
             [] \<Rightarrow> Syntax_Error
           | v # vs \<Rightarrow>
               if v = TOp '')'' then
                 (case callee of
                    None \<Rightarrow> Parsed (build a, vs)
                  | Some f \<Rightarrow> rec (Trailers (build a)) vs)
               else Syntax_Error)
      | other \<Rightarrow> other)"

definition parse_step :: "parser \<Rightarrow> parser" where
  \<comment> \<open>the rule of one nonterminal; \<open>rec\<close> parses the nonterminals of its right-hand side\<close>
  "parse_step rec nt ts =
     (case nt of
        Sum \<Rightarrow>
          (case rec Term ts of
             Parsed (l, rest) \<Rightarrow> rec (Sum_Rest l) rest
           | other \<Rightarrow> other)
      | Sum_Rest l \<Rightarrow>
          (case ts of
             [] \<Rightarrow> Parsed (l, [])
           | t # ts' \<Rightarrow>
               (case sum_op t of
                  None \<Rightarrow> Parsed (l, ts)
                | Some op \<Rightarrow>
                    (case rec Term ts' of
                       Parsed (r, rest) \<Rightarrow> rec (Sum_Rest (BinOp l op r)) rest
                     | other \<Rightarrow> other)))
      | Term \<Rightarrow>
          (case rec Factor ts of
             Parsed (l, rest) \<Rightarrow> rec (Term_Rest l) rest
           | other \<Rightarrow> other)
      | Term_Rest l \<Rightarrow>
          (case ts of
             [] \<Rightarrow> Parsed (l, [])
           | t # ts' \<Rightarrow>
               (case term_op t of
                  None \<Rightarrow> Parsed (l, ts)
                | Some op \<Rightarrow>
                    (case rec Factor ts' of
                       Parsed (r, rest) \<Rightarrow> rec (Term_Rest (BinOp l op r)) rest
                     | other \<Rightarrow> other)))
      | Factor \<Rightarrow>
          (case ts of
             [] \<Rightarrow> Syntax_Error
           | t # ts' \<Rightarrow>
               (case unary_op t of
                  Some op \<Rightarrow>
                    (case rec Factor ts' of
                       Parsed (x, rest) \<Rightarrow> Parsed (UnaryOp op x, rest)
                     | other \<Rightarrow> other)
                | None \<Rightarrow> rec Power ts))
      | Power \<Rightarrow>
          (case rec Atom ts of
             Parsed (a, rest) \<Rightarrow>
               (case rec (Trailers a) rest of
                  Parsed (b, rest') \<Rightarrow>
                    (case rest' of
                       [] \<Rightarrow> Parsed (b, [])
                     | t # ts' \<Rightarrow>
                         if t = TOp ''**'' then
                           (case rec Factor ts' of
                              Parsed (e, rest'') \<Rightarrow> Parsed (BinOp b Pow e, rest'')
                            | other \<Rightarrow> other)
                         else Parsed (b, rest'))
                | other \<Rightarrow> other)
           | other \<Rightarrow> other)
      | Trailers f \<Rightarrow>
          (case ts of
             [] \<Rightarrow> Parsed (f, [])
           | t # ts' \<Rightarrow>
               if t \<noteq> TOp ''('' then Parsed (f, ts)
               else (case ts' of
                       [] \<Rightarrow> Syntax_Error
                     | u # us \<Rightarrow>
                         if u = TOp '')'' then rec (Trailers (Call f [] [])) us
                         else if u = TOp ''*'' then
                           closing rec (Some f) (\<lambda>a. Call f [Other ''Starred''] []) us
                         else if u = TOp ''**'' then
                           closing rec (Some f) (\<lambda>a. Call f [] [''**'']) us
                         else closing rec (Some f) (\<lambda>a. Call f [a] []) ts'))
      | Atom \<Rightarrow>
          (case ts of
             [] \<Rightarrow> Syntax_Error
           | t # ts' \<Rightarrow>
               (case t of
                  TNum c \<Rightarrow> Parsed (Constant c, ts')
                | TName x \<Rightarrow> Parsed (Name x, ts')
                | TKeyword k \<Rightarrow> Syntax_Error
                | TOp p \<Rightarrow>
                    if p \<noteq> ''('' then Syntax_Error
                    else (case ts' of
                            [] \<Rightarrow> Syntax_Error
                          | u # us \<Rightarrow>
                              if u = TOp '')'' then Parsed (Other ''Tuple'', us)
                              else closing rec None (\<lambda>a. a) ts'))))"

primrec parse_tokens :: "nat \<Rightarrow> parser" where
  "parse_tokens 0 = (\<lambda>nt ts. Not_Modelled)"
| "parse_tokens (Suc n) = parse_step (parse_tokens n)"

definition parse :: "string \<Rightarrow> expr parsed" where
  \<comment> \<open>\<open>ast.parse(expr, mode='eval').body\<close>; a text that begins with blank space is an
      \<open>IndentationError\<close>, which is a \<open>SyntaxError\<close>\<close>
  "parse s =
     (case s of
        [] \<Rightarrow> Syntax_Error
      | c # cs \<Rightarrow>
          if isblank c then Syntax_Error
          else if isnewline c then Not_Modelled
          else (case tokenize (Suc (length s)) 0 s of
                  Parsed ts \<Rightarrow>
                    (case parse_tokens (8 * length ts + 8) Sum ts of
                       Parsed (e, []) \<Rightarrow> Parsed e
                     | Parsed (e, t # rest) \<Rightarrow> Syntax_Error
                     | Syntax_Error \<Rightarrow> Syntax_Error
                     | Not_Modelled \<Rightarrow> Not_Modelled)
                | Syntax_Error \<Rightarrow> Syntax_Error
                | Not_Modelled \<Rightarrow> Not_Modelled))"

section \<open>The entry points\<close>

definition safe_math_eval :: "platform \<Rightarrow> string \<Rightarrow> (error + value) option" where
  \<comment> \<open>\<open>safe_math_eval(expr)\<close>: \<open>Some (Inr result)\<close> for the return \<open>(result, None)\<close>,
      \<open>Some (Inl e)\<close> for the return \<open>(None, message)\<close> of the handlers after the exception
      \<open>e\<close>, and \<open>None\<close> for a text outside the fragment of the parser\<close>
  "safe_math_eval P raw =
     (case parse (preprocess raw) of
        Parsed body \<Rightarrow> Some (evaluate P body)
      | Syntax_Error \<Rightarrow> Some (Inl SyntaxError)
      | Not_Modelled \<Rightarrow> None)"

section \<open>The HTTP view\<close>

text \<open>
  \<open>calculate_api(request)\<close> for a request that passes the CSRF check. The arguments are
  \<open>request.method\<close> and the field \<open>expression\<close> of the form, if it is there. The answer is
  a \<open>JsonResponse\<close> with its payload and status, or the exception that leaves the view when
  the result cannot be written as JSON.
\<close>

datatype payload =
    Error_Message string
  | Error_Of error
  | Result "value"

datatype response = JsonResponse payload nat | Uncaught error

definition allowed_char :: "char \<Rightarrow> bool" where
  \<comment> \<open>the class \<open>[0-9+\-*/().%\s\^\<times>\<div>a-zA-Z]\<close>\<close>
  "allowed_char c =
     (isdigit c \<or> c \<in> set ''+-*/().%^'' \<or> isspace c \<or> c = CHR 0xD7 \<or> c = CHR 0xF7
      \<or> isalpha c)"

definition json_serializable :: "value \<Rightarrow> bool" where
  \<comment> \<open>what \<open>DjangoJSONEncoder\<close> can write\<close>
  "json_serializable v =
     (case v of VFunc n \<Rightarrow> False | VComplex x y \<Rightarrow> False | VEllipsis \<Rightarrow> False | _ \<Rightarrow> True)"

definition calculate_api :: "platform \<Rightarrow> string \<Rightarrow> string option \<Rightarrow> response option" where
  \<comment> \<open>\<open>None\<close> when the expression is outside the fragment of the parser. The test
      \<open>if error:\<close> fails for an empty message, which only a \<open>ValueError\<close> of the platform
      can have.\<close>
  "calculate_api P method expression =
     (if method \<noteq> ''POST'' then Some (JsonResponse (Error_Message ''Method not allowed'') 405)
      else
        let expr = strip (case expression of None \<Rightarrow> [] | Some e \<Rightarrow> e) in
        if expr = [] then Some (JsonResponse (Error_Message ''Empty expression'') 400)
        else if length expr > 200
        then Some (JsonResponse (Error_Message ''Expression too long (max 200 chars)'') 400)
        else if \<not> list_all allowed_char expr
        then Some (JsonResponse (Error_Message ''Invalid characters detected'') 400)
        else
          (case safe_math_eval P expr of
             None \<Rightarrow> None
           | Some (Inl e) \<Rightarrow>
               if e = ValueError [] then Some (JsonResponse (Result VNone) 200)
               else Some (JsonResponse (Error_Of e) 400)
           | Some (Inr result) \<Rightarrow>
               if json_serializable result then Some (JsonResponse (Result result) 200)
               else Some (Uncaught TypeError)))"

section \<open>Names and an example platform\<close>

text \<open>
  The identifiers of a tree: every \<open>Name\<close> node in it, also as the callee of a call or
  inside an argument.
\<close>

fun names_of :: "expr \<Rightarrow> string list"
  and names_of_list :: "expr list \<Rightarrow> string list" where
  "names_of (Constant c) = []"
| "names_of (Name n) = [n]"
| "names_of (BinOp l op r) = names_of l @ names_of r"
| "names_of (UnaryOp op x) = names_of x"
| "names_of (Call f args kws) = names_of f @ names_of_list args"
| "names_of (Other n) = []"
| "names_of_list [] = []"
| "names_of_list (a # as) = names_of a @ names_of_list as"

text \<open>
  A platform to evaluate closed examples on. Of the C library it has the sine of the double
  nearest to \<open>pi / 2\<close>, which is \<open>1.0\<close>; every other call left to the platform raises.
\<close>

definition example_platform :: platform where
  "example_platform =
     \<lparr>libm_sin = (\<lambda>x. if x = Fin (884279719003555 / 2 ^ 49) then Inr (Fin 1)
                        else Inl (ValueError ''math domain error'')),
      libm_cos = (\<lambda>x. Inl (ValueError ''math domain error'')),
      libm_tan = (\<lambda>x. Inl (ValueError ''math domain error'')),
      libm_log10 = (\<lambda>x. Inl (ValueError ''math domain error'')),
      libm_log = (\<lambda>x. Inl (ValueError ''math domain error'')),
      runtime_binop = (\<lambda>op l r. Inl TypeError),
      runtime_call = (\<lambda>n vs. Inl TypeError)\<rparr>"

section \<open>Properties of the preprocessor\<close>

lemma take_base_chars: "c \<in> set (take_base r) \<Longrightarrow> isnumch c \<or> isopch c"
  by (induction r rule: take_base.induct) (auto split: if_splits)

lemma take_base_no_pct: "CHR ''%'' \<notin> set (take_base r)"
  using take_base_chars [of "CHR ''%''" r] by (auto simp: isnumch_def isopch_def isdigit_def)

lemma prev_match_no_pct: "prev_match b = Some base \<Longrightarrow> CHR ''%'' \<notin> set base"
proof -
  assume "prev_match b = Some base"
  then have "\<exists>r. base = rev (take_base r)"
    by (auto simp: prev_match_def Let_def split: list.splits if_splits)
  then show ?thesis using take_base_no_pct by auto
qed

lemma replace_percent_no_pct:
  "CHR ''%'' \<notin> set num \<Longrightarrow> CHR ''%'' \<notin> set (replace_percent b num)"
  by (auto simp: replace_percent_def dest: prev_match_no_pct split: option.splits)

lemma takeWhile_digit_no_pct: "CHR ''%'' \<notin> set (takeWhile isdigit s)"
  by (auto dest!: set_takeWhileD simp: isdigit_def)

lemma match_num_no_pct: "match_percent s = Some (num, rest) \<Longrightarrow> CHR ''%'' \<notin> set num"
  using takeWhile_digit_no_pct
  by (auto simp: match_percent_def Let_def split: list.splits if_splits)

lemma match_percent_split:
  "match_percent s = Some (num, rest) \<Longrightarrow> s = num @ CHR ''%'' # rest"
proof -
  assume m: "match_percent s = Some (num, rest)"
  define r1 where "r1 = dropWhile isdigit s"
  have s: "s = takeWhile isdigit s @ r1"
    by (simp add: r1_def)
  from m obtain c r2 where r1: "r1 = c # r2"
    by (cases r1) (auto simp: match_percent_def Let_def r1_def [symmetric] split: if_splits)
  show ?thesis
  proof (cases "c = CHR ''%''")
    case True
    with m r1 have "num = takeWhile isdigit s" "rest = r2"
      by (auto simp: match_percent_def Let_def r1_def [symmetric] split: if_splits)
    with s r1 True show ?thesis by simp
  next
    case False
    define r3 where "r3 = dropWhile isdigit r2"
    have r2: "r2 = takeWhile isdigit r2 @ r3"
      by (simp add: r3_def)
    from m r1 False have c: "c = CHR ''.''"
      by (auto simp: match_percent_def Let_def r1_def [symmetric] split: if_splits)
    from m r1 c have "r3 = CHR ''%'' # rest \<and> num = takeWhile isdigit s @ ''.'' @ takeWhile isdigit r2"
      by (auto simp: match_percent_def Let_def r1_def [symmetric] r3_def [symmetric]
               split: if_splits list.splits)
    with s r1 c r2 show ?thesis by (metis append.assoc append_Cons append_Nil)
  qed
qed

lemma no_match_next:
  assumes "match_percent (c # cs) = None" and "isdigit c"
  shows "cs = [] \<or> hd cs \<noteq> CHR ''%''"
proof (cases cs)
  case Nil
  then show ?thesis by simp
next
  case (Cons x xs)
  show ?thesis
  proof (rule ccontr)
    assume "\<not> ?thesis"
    with Cons have "x = CHR ''%''" by simp
    with Cons assms(2) have "match_percent (c # cs) = Some ([c], xs)"
      by (simp add: match_percent_def Let_def isdigit_def)
    with assms(1) show False by simp
  qed
qed

lemma isspace_not_digit: "isspace c \<Longrightarrow> \<not> isdigit c"
  by (auto simp: isspace_def isdigit_def)

lemma percents_follow_numbers_append:
  "percents_follow_numbers k (xs @ ys) =
     (percents_follow_numbers k xs \<and> percents_follow_numbers (foldl next_context k xs) ys)"
  by (induction xs arbitrary: k) auto

lemma percents_follow_numbers_no_pct: "CHR ''%'' \<notin> set s \<Longrightarrow> percents_follow_numbers k s"
  by (induction s arbitrary: k) auto

lemma context_digits_weak:
  "\<forall>c\<in>set ds. isdigit c \<Longrightarrow> foldl next_context k ds = (if ds = [] then k else After_Digit)"
  by (induction ds arbitrary: k) (auto simp: next_context_def)

lemma context_digits:
  "ds \<noteq> [] \<Longrightarrow> \<forall>c\<in>set ds. isdigit c \<Longrightarrow> foldl next_context k ds = After_Digit"
  by (simp add: context_digits_weak)

lemma context_last:
  "r \<noteq> [] \<Longrightarrow> foldl next_context k r = next_context (foldl next_context k (butlast r)) (last r)"
  by (induction r arbitrary: k) auto

lemma takeWhile_all_digits: "\<forall>c\<in>set (takeWhile isdigit s). isdigit c"
  by (auto dest: set_takeWhileD)

lemma match_percent_context:
  assumes "match_percent s = Some (num, rest)"
  shows "foldl next_context k num \<noteq> After_Other"
proof -
  let ?d1 = "takeWhile isdigit s"
  from assms have d1: "?d1 \<noteq> []"
    by (auto simp: match_percent_def Let_def split: if_splits)
  have c1: "foldl next_context k ?d1 = After_Digit"
    using d1 takeWhile_all_digits by (rule context_digits)
  from assms have "num = ?d1 \<or> (\<exists>r2. num = ?d1 @ ''.'' @ takeWhile isdigit r2)"
    by (auto simp: match_percent_def Let_def split: if_splits list.splits)
  then show ?thesis
  proof
    assume "num = ?d1"
    with c1 show ?thesis by simp
  next
    assume "\<exists>r2. num = ?d1 @ ''.'' @ takeWhile isdigit r2"
    then obtain r2 where n: "num = ?d1 @ ''.'' @ takeWhile isdigit r2" by blast
    have "foldl next_context k num =
            foldl next_context After_Digit_Point (takeWhile isdigit r2)"
      by (simp add: n c1 next_context_def isdigit_def)
    also have "\<dots> = (if takeWhile isdigit r2 = [] then After_Digit_Point else After_Digit)"
      using takeWhile_all_digits by (rule context_digits_weak)
    finally show ?thesis by simp
  qed
qed

lemma match_percent_follow_numbers:
  assumes "match_percent s = Some (num, rest)"
  shows "percents_follow_numbers After_Other s = percents_follow_numbers After_Other rest"
proof -
  have s: "s = num @ CHR ''%'' # rest"
    using assms by (rule match_percent_split)
  have "percents_follow_numbers After_Other num"
    using match_num_no_pct [OF assms] by (rule percents_follow_numbers_no_pct)
  moreover have "foldl next_context After_Other num \<noteq> After_Other"
    using assms by (rule match_percent_context)
  moreover have "next_context k (CHR ''%'') = After_Other" for k
    by (simp add: next_context_def isdigit_def)
  ultimately show ?thesis
    by (subst s) (simp add: percents_follow_numbers_append)
qed

lemma no_match_after_digit:
  assumes "match_percent (c # cs) = None" and "isdigit c"
  shows "percents_follow_numbers After_Digit cs = percents_follow_numbers After_Other cs"
proof (cases cs)
  case Nil
  then show ?thesis by simp
next
  case (Cons x xs)
  have x: "x \<noteq> CHR ''%''"
    using no_match_next [OF assms] Cons by simp
  show ?thesis
  proof (cases "x = CHR ''.''")
    case False
    with x Cons show ?thesis by (simp add: next_context_def)
  next
    case True
    have "xs = [] \<or> hd xs \<noteq> CHR ''%''"
    proof (rule ccontr)
      assume "\<not> ?thesis"
      then obtain ys where "xs = CHR ''%'' # ys" by (cases xs) auto
      with Cons True assms(2) have "match_percent (c # cs) = Some ([c] @ ''.'' @ [], ys)"
        by (simp add: match_percent_def Let_def isdigit_def)
      with assms(1) show False by simp
    qed
    then have "percents_follow_numbers After_Digit_Point xs = percents_follow_numbers After_Other xs"
      by (cases xs) (auto simp: next_context_def)
    with Cons True show ?thesis by (simp add: next_context_def isdigit_def)
  qed
qed

lemma sub_percent_pct_iff:
  "CHR ''%'' \<notin> set (sub_percent b s) \<longleftrightarrow> percents_follow_numbers After_Other s"
proof (induction b s rule: sub_percent.induct)
  case (1 b)
  show ?case by simp
next
  case (2 b c cs)
  show ?case
  proof (cases "match_percent (c # cs)")
    case None
    have "percents_follow_numbers (next_context After_Other c) cs
            = percents_follow_numbers After_Other cs"
    proof (cases "isdigit c")
      case True
      then show ?thesis
        using no_match_after_digit [OF None True] by (simp add: next_context_def)
    next
      case False
      then show ?thesis by (simp add: next_context_def)
    qed
    with "2.IH"(1) [OF None] None show ?thesis by auto
  next
    case (Some p)
    obtain num rest where p: "p = (num, rest)" by (cases p)
    have m: "match_percent (c # cs) = Some (num, rest)" using Some p by simp
    have "CHR ''%'' \<notin> set (replace_percent b num)"
      using match_num_no_pct [OF m] by (rule replace_percent_no_pct)
    with "2.IH"(2) [OF m refl] match_percent_follow_numbers [OF m] m show ?thesis by simp
  qed
qed

lemma not_isspace_pct: "\<not> isspace (CHR ''%'')"
  by (simp add: isspace_def)

lemma not_isspace_point: "\<not> isspace (CHR ''.'')"
  by (simp add: isspace_def)

lemma isspace_context:
  assumes "isspace c"
  shows "next_context k c = After_Other" and "c \<noteq> CHR ''%''"
proof -
  have "\<not> isdigit c"
    using assms by (rule isspace_not_digit)
  moreover have "c \<noteq> CHR ''.''"
    using assms not_isspace_point by blast
  ultimately show "next_context k c = After_Other"
    by (simp add: next_context_def)
  show "c \<noteq> CHR ''%''"
    using assms not_isspace_pct by blast
qed

lemma percents_follow_numbers_dropWhile_space:
  "percents_follow_numbers After_Other (dropWhile isspace s) = percents_follow_numbers After_Other s"
  by (induction s) (simp_all add: isspace_context)

lemma percents_follow_numbers_spaces: "\<forall>c\<in>set w. isspace c \<Longrightarrow> percents_follow_numbers k w"
  by (induction w arbitrary: k) (simp_all add: isspace_context)

lemma percents_follow_numbers_strip:
  "percents_follow_numbers After_Other (strip s) = percents_follow_numbers After_Other s"
proof -
  define t where "t = dropWhile isspace s"
  define w where "w = rev (takeWhile isspace (rev t))"
  have "rev t = takeWhile isspace (rev t) @ dropWhile isspace (rev t)"
    by simp
  then have "t = rev (dropWhile isspace (rev t)) @ rev (takeWhile isspace (rev t))"
    by (metis rev_append rev_rev_ident)
  then have t: "t = strip s @ w"
    by (simp add: strip_def w_def t_def)
  have "\<forall>c\<in>set w. isspace c"
    by (auto simp: w_def dest: set_takeWhileD)
  then have "percents_follow_numbers k w" for k
    by (rule percents_follow_numbers_spaces)
  then have "percents_follow_numbers After_Other t = percents_follow_numbers After_Other (strip s)"
    by (subst t) (simp add: percents_follow_numbers_append)
  then show ?thesis by (simp add: t_def percents_follow_numbers_dropWhile_space)
qed

lemma percents_follow_numbers_replace:
  assumes "c \<noteq> CHR ''%''" "\<not> isdigit c" "c \<noteq> CHR ''.''"
    and "r \<noteq> []" "\<forall>x\<in>set r. x \<noteq> CHR ''%''" "\<not> isdigit (last r)" "last r \<noteq> CHR ''.''"
  shows "percents_follow_numbers k (replace c r s) = percents_follow_numbers k s"
proof (induction s arbitrary: k)
  case Nil
  show ?case by (simp add: replace_def)
next
  case (Cons x s)
  have r: "replace c r (x # s) = (if x = c then r else [x]) @ replace c r s"
    by (simp add: replace_def)
  show ?case
  proof (cases "x = c")
    case True
    have "foldl next_context k r = After_Other"
      using assms(6,7) by (simp add: context_last [OF assms(4)] next_context_def)
    moreover have "percents_follow_numbers k r"
      using assms(5) by (intro percents_follow_numbers_no_pct) auto
    moreover have "next_context k c = After_Other"
      using assms(2,3) by (simp add: next_context_def)
    moreover have "replace c r (c # s) = r @ replace c r s"
      by (simp add: replace_def)
    ultimately show ?thesis
      using True assms(1) Cons.IH by (simp add: percents_follow_numbers_append)
  next
    case False
    then show ?thesis using Cons.IH by (simp add: r)
  qed
qed

lemma percents_follow_numbers_aliases:
  "percents_follow_numbers After_Other (aliases s) = percents_follow_numbers After_Other s"
proof -
  have "percents_follow_numbers After_Other (aliases s)
          = percents_follow_numbers After_Other (strip s)"
    unfolding aliases_def
    by (simp add: percents_follow_numbers_replace isdigit_def)
  then show ?thesis by (simp add: percents_follow_numbers_strip)
qed

text \<open>
  Claim C6, as the code has it: the preprocessor rewrites exactly the \<open>%\<close> that directly
  follows a number, which ends with a digit or with a point after a digit. The expression
  handed to the parser contains no \<open>%\<close> if and only if every \<open>%\<close> of the input directly
  follows a digit, or a point that directly follows a digit. Any other \<open>%\<close> is left in
  place and reaches the parser as the modulo operator, as in \<open>(7)%2\<close>.
\<close>

theorem preprocess_rewrites_percent_after_number:
  "CHR ''%'' \<notin> set (preprocess raw) \<longleftrightarrow> percents_follow_numbers After_Other raw"
  by (simp add: preprocess_def sub_percent_pct_iff percents_follow_numbers_aliases)

theorem preprocess_rewrites_percent_after_number_witness:
  "percents_follow_numbers After_Other ''50%+1.5%-2.%''
     \<and> CHR ''%'' \<notin> set (preprocess ''50%+1.5%-2.%'')"
  using preprocess_rewrites_percent_after_number [of "''50%+1.5%-2.%''"]
  by (simp add: next_context_def isdigit_def)

theorem preprocess_keeps_modulo_percent:
  "CHR ''%'' \<in> set (preprocess ''(7)%2'')"
  by code_simp

section \<open>Properties of the evaluator\<close>

lemma names_of_error:
  "n \<in> set (names_of x) \<Longrightarrow> n \<notin> set ALLOWED_MATH_NAMES \<Longrightarrow> \<exists>err. eval_node P x = Inl err"
  "n \<in> set (names_of_list xs) \<Longrightarrow> n \<notin> set ALLOWED_MATH_NAMES \<Longrightarrow> \<exists>err. eval_args P xs = Inl err"
proof (induction x and xs rule: names_of_names_of_list.induct)
  case (1 c)
  then show ?case by simp
next
  case (2 m)
  then show ?case by simp
next
  case (3 l op r)
  show ?case
  proof (cases "eval_node P l")
    case (Inl a)
    then show ?thesis by simp
  next
    case (Inr lv)
    then have "n \<notin> set (names_of l)" using 3 by auto
    with 3 have "n \<in> set (names_of r)" by simp
    then obtain err where "eval_node P r = Inl err" using 3 by blast
    with Inr show ?thesis by simp
  qed
next
  case (4 op x)
  then obtain err where "eval_node P x = Inl err" by auto
  then show ?case by simp
next
  case (5 f args kws)
  show ?case
  proof (cases f)
    case (Name m)
    show ?thesis
    proof (cases "m \<in> set ALLOWED_MATH_NAMES")
      case True
      with 5 Name have "n \<in> set (names_of_list args)" by auto
      then obtain err where "eval_args P args = Inl err" using 5 by blast
      with Name True show ?thesis by simp
    next
      case False
      with Name show ?thesis by simp
    qed
  qed simp_all
next
  case (6 m)
  then show ?case by simp
next
  case 7
  then show ?case by simp
next
  case (8 a as)
  show ?case
  proof (cases "eval_node P a")
    case (Inl e)
    then show ?thesis by simp
  next
    case (Inr v)
    then have "n \<notin> set (names_of a)" using 8 by auto
    with 8 have "n \<in> set (names_of_list as)" by simp
    then obtain err where "eval_args P as = Inl err" using 8 by blast
    with Inr show ?thesis by simp
  qed
qed

lemma os_call_not_allowed:
  "safe_math_eval P ''os(1)'' = Some (Inl (ValueError ''Function not allowed: os''))"
  by code_simp

text \<open>
  Claim C1, at its two inputs. \<open>10%\<close> evaluates to the float nearest to \<open>0.1\<close>. In
  \<open>100+10%\<close> the text in front of the match ends with \<open>+\<close>, so the percentage is rewritten
  on its own: the parser gets \<open>100+(10/100)\<close> and the result is the float nearest to
  \<open>100.1\<close>, not \<open>110\<close>.
\<close>

theorem percent_after_plus_is_standalone:
  "safe_math_eval P ''10%'' = Some (Inr (VFloat (to_double (1 / 10))))
   \<and> preprocess ''100+10%'' = ''100+(10/100)''
   \<and> safe_math_eval P ''100+10%'' = Some (Inr (VFloat (to_double (1001 / 10))))"
  by code_simp

text \<open>
  Claim C3, as the code has it. A name outside the whitelist, evaluated as a name or as the
  callee of a call, gives the error \<open>Function not allowed\<close> with that name, and every tree
  that contains such a name evaluates to an error; so does the text \<open>os(1)\<close>. The text
  \<open>import(1)\<close> never reaches the evaluator: \<open>import\<close> is a keyword and the parser raises
  \<open>SyntaxError\<close>.
\<close>

theorem unknown_name_is_an_error:
  "n \<notin> set ALLOWED_MATH_NAMES \<Longrightarrow>
     evaluate P (Name n) = Inl (ValueError (''Function not allowed: '' @ n))
     \<and> evaluate P (Call (Name n) args kws) = Inl (ValueError (''Function not allowed: '' @ n))
     \<and> (n \<in> set (names_of x) \<longrightarrow> (\<exists>err. evaluate P x = Inl err))
     \<and> safe_math_eval P ''os(1)'' = Some (Inl (ValueError ''Function not allowed: os''))"
proof -
  assume n: "n \<notin> set ALLOWED_MATH_NAMES"
  have "\<exists>err. evaluate P x = Inl err" if nx: "n \<in> set (names_of x)"
  proof -
    obtain err where "eval_node P x = Inl err"
      using names_of_error(1) [OF nx n] by blast
    then show ?thesis by (simp add: evaluate_def)
  qed
  with n show ?thesis
    by (simp add: evaluate_def os_call_not_allowed)
qed

theorem unknown_name_is_an_error_witness:
  "''os'' \<notin> set ALLOWED_MATH_NAMES
   \<and> ''os'' \<in> set (names_of (BinOp (Constant (CInt 1)) Add (Call (Name ''sqrt'') [Name ''os''] [])))
   \<and> evaluate example_platform (Name ''os'') = Inl (ValueError ''Function not allowed: os'')
   \<and> evaluate example_platform (Call (Name ''os'') [Constant (CInt 1)] [])
       = Inl (ValueError ''Function not allowed: os'')
   \<and> (\<exists>err. evaluate example_platform
                (BinOp (Constant (CInt 1)) Add (Call (Name ''sqrt'') [Name ''os''] [])) = Inl err)"
proof -
  have a: "''os'' \<notin> set ALLOWED_MATH_NAMES"
    by code_simp
  have b: "''os'' \<in> set (names_of (BinOp (Constant (CInt 1)) Add (Call (Name ''sqrt'') [Name ''os''] [])))"
    by simp
  from unknown_name_is_an_error [OF a, of example_platform "[Constant (CInt 1)]" "[]"
      "BinOp (Constant (CInt 1)) Add (Call (Name ''sqrt'') [Name ''os''] [])"] a b
  show ?thesis by simp
qed

theorem keyword_callee_is_a_syntax_error:
  "safe_math_eval example_platform ''import(1)'' = Some (Inl SyntaxError)"
  by code_simp




text \<open>
  Claim C5, as the code has it. The view strips the expression before it measures it: an
  expression of more than 200 characters after stripping is rejected, whatever it contains
  and before any parsing. White space around the expression does not count, so 198 spaces
  and \<open>1+1\<close>, 201 characters, are accepted and give \<open>2\<close>.
\<close>

theorem stripped_length_over_200_is_rejected:
  "length (strip raw) > 200 \<Longrightarrow>
   calculate_api P ''POST'' (Some raw)
     = Some (JsonResponse (Error_Message ''Expression too long (max 200 chars)'') 400)"
  by (auto simp add: calculate_api_def Let_def)

theorem stripped_length_over_200_is_rejected_witness:
  "length (strip (replicate 201 (CHR ''1''))) > 200 \<and>
   calculate_api example_platform ''POST'' (Some (replicate 201 (CHR ''1'')))
     = Some (JsonResponse (Error_Message ''Expression too long (max 200 chars)'') 400)"
proof -
  have "length (strip (replicate 201 (CHR ''1''))) > 200"
    by code_simp
  with stripped_length_over_200_is_rejected [of "replicate 201 (CHR ''1'')" example_platform]
  show ?thesis by simp
qed

theorem padded_expression_is_accepted:
  "length (replicate 198 (CHR '' '') @ ''1+1'') = 201 \<and>
   calculate_api example_platform ''POST'' (Some (replicate 198 (CHR '' '') @ ''1+1''))
     = Some (JsonResponse (Result (VInt 2)) 200)"
  by code_simp


text \<open>
  Claim C10: the name of a whitelisted function alone, as \<open>sqrt\<close>, evaluates without an
  error, and the result is the function itself.
\<close>

theorem bare_function_name_is_returned:
  "n \<in> set ALLOWED_MATH_NAMES \<Longrightarrow> n \<noteq> ''pi'' \<Longrightarrow> n \<noteq> ''e'' \<Longrightarrow>
   safe_math_eval P n = Some (Inr (VFunc n))"
proof -
  have "safe_math_eval P ''sqrt'' = Some (Inr (VFunc ''sqrt''))" by code_simp
  moreover have "safe_math_eval P ''sin'' = Some (Inr (VFunc ''sin''))" by code_simp
  moreover have "safe_math_eval P ''cos'' = Some (Inr (VFunc ''cos''))" by code_simp
  moreover have "safe_math_eval P ''tan'' = Some (Inr (VFunc ''tan''))" by code_simp
  moreover have "safe_math_eval P ''log'' = Some (Inr (VFunc ''log''))" by code_simp
  moreover have "safe_math_eval P ''ln'' = Some (Inr (VFunc ''ln''))" by code_simp
  moreover have "safe_math_eval P ''abs'' = Some (Inr (VFunc ''abs''))" by code_simp
  moreover have "safe_math_eval P ''round'' = Some (Inr (VFunc ''round''))" by code_simp
  moreover assume "n \<in> set ALLOWED_MATH_NAMES" "n \<noteq> ''pi''" "n \<noteq> ''e''"
  ultimately show ?thesis
    unfolding ALLOWED_MATH_NAMES_def by auto
qed

theorem bare_function_name_is_returned_witness:
  "''sqrt'' \<in> set ALLOWED_MATH_NAMES \<and> ''sqrt'' \<noteq> ''pi'' \<and> ''sqrt'' \<noteq> ''e''
   \<and> safe_math_eval example_platform ''sqrt'' = Some (Inr (VFunc ''sqrt''))"
proof -
  have a: "''sqrt'' \<in> set ALLOWED_MATH_NAMES"
    by code_simp
  from bare_function_name_is_returned [OF a, of example_platform] a
  show ?thesis by simp
qed

end
